theory Spec2Isabelle
  imports Complex_Main
begin

section \<open>Shared types of the extrinsics\<close>

text \<open>
  The extrinsics of \<^verbatim>\<open>basedai/extrinsics/root.py\<close> and
  \<^verbatim>\<open>basedai/extrinsics/set_weights.py\<close> are Python functions that call a chain
  client, print to a console and ask the user for confirmation. They are modelled as
  functions that take the chain's state, and return the Python result (an exception that
  propagates is \<open>Inl\<close>, a returned value is \<open>Inr\<close>), the list of effects they performed, in
  order, and the chain's state afterwards.

  \<open>exn\<close> stands for the instances of Python's \<^verbatim>\<open>Exception\<close> class, which is what
  \<^verbatim>\<open>except Exception\<close> catches.
\<close>

datatype exn = ValueError string | IndexError string | OtherException string

fun str_exn :: "exn \<Rightarrow> string" where
  "str_exn (ValueError m) = m"
| "str_exn (IndexError m) = m"
| "str_exn (OtherException m) = m"

text \<open>
  What a Python function hands back when it returns: \<^verbatim>\<open>True\<close>, \<^verbatim>\<open>False\<close>, or
  \<^verbatim>\<open>None\<close> when control reaches the end of the body without a \<^verbatim>\<open>return\<close>.
\<close>

datatype pyval = PyBool bool | PyNone

record wallet =
  computekey_ss58_address :: string

text \<open>
  The effects, as the source performs them: calls of the chain client, the confirmation
  prompt, console and log output, sleeping. The calls of the two helpers of
  \<^verbatim>\<open>weight_utils\<close> are recorded with their arguments too, so that a trace shows
  which vectors a run handed to them. \<open>Call_do_set_weights\<close> carries
  \<open>netuid uids vals version_key wait_for_finalization wait_for_inclusion\<close>.
\<close>

datatype event =
    Call_is_computekey_registered int string
  | Call_do_root_register bool bool
  | Call_min_allowed_weights int
  | Call_max_weight_limit int
  | Call_do_set_weights int "int list" "nat list" int bool bool
  | Call_normalize_max_weight "rat list" rat
  | Call_convert_weights_and_uids_for_emit "int list" "rat list"
  | Confirm_ask_register
  | Confirm_ask_set_weights "rat list" "int list"
  | Confirm_ask_root_weights "rat list" "int list"
  | Console_print string
  | Console_print_weights "rat list" "rat list"
  | Console_print_result bool string
  | Console_status string
  | Logging_success string string
  | Logging_warning string string
  | Sleep

text \<open>
  The chain client \<^verbatim>\<open>basedai.basednode\<close> and the helpers of
  \<^verbatim>\<open>basedai.utils.weight_utils\<close> are not part of the sources at hand: they are
  parameters of the model. The chain is a service with a state of its own (type \<open>'s\<close>):
  queries read it, submissions may change it, and every call may raise.
  The arguments follow the keyword arguments of the calls in the source:
  \<open>do_set_weights wallet netuid uids vals version_key wait_for_finalization wait_for_inclusion\<close>.
\<close>

record 's basednode =
  network :: string
  chain_endpoint :: string
  is_computekey_registered :: "int \<Rightarrow> string \<Rightarrow> 's \<Rightarrow> exn + bool"
  do_root_register :: "wallet \<Rightarrow> bool \<Rightarrow> bool \<Rightarrow> 's \<Rightarrow> (exn + bool \<times> string) \<times> 's"
  min_allowed_weights :: "int \<Rightarrow> 's \<Rightarrow> exn + int"
  max_weight_limit :: "int \<Rightarrow> 's \<Rightarrow> exn + rat"
  do_set_weights ::
    "wallet \<Rightarrow> int \<Rightarrow> int list \<Rightarrow> nat list \<Rightarrow> int \<Rightarrow> bool \<Rightarrow> bool \<Rightarrow> 's \<Rightarrow> (exn + bool \<times> string) \<times> 's"

record weight_utils =
  normalize_max_weight :: "rat list \<Rightarrow> rat \<Rightarrow> exn + rat list"
  convert_weights_and_uids_for_emit :: "int list \<Rightarrow> rat list \<Rightarrow> exn + int list \<times> nat list"

section \<open>Console messages\<close>

definition msg_already_memorized :: string where
  "msg_already_memorized =
     '':white_heavy_check_mark: [green]Root network has already memorized this data.[/green]''"

definition msg_creating_link :: string where
  "msg_creating_link = '':brain: Creating link to core permanent memory...''"

definition msg_failed :: "string \<Rightarrow> string" where
  "msg_failed err = '':cross_mark: [red]Failed[/red]: error:'' @ err"

definition msg_memorized :: string where
  "msg_memorized = '':white_heavy_check_mark: [green]Memorized[/green]''"

definition msg_unknown_error :: string where
  "msg_unknown_error = '':cross_mark: [red]Unknown error. Memory circuit not found.[/red]''"

definition msg_finalized :: string where
  "msg_finalized = '':white_heavy_check_mark: [green]Finalized[/green]''"

definition msg_setting_weights :: "string \<Rightarrow> string" where
  "msg_setting_weights net = '':brain: Setting weights on [white]'' @ net @ ''[/white] ...''"

definition msg_setting_root_weights :: "string \<Rightarrow> string" where
  "msg_setting_root_weights net = '':brain: Setting root weights on [white]'' @ net @ ''[/white] ...''"

text \<open>Python's \<^verbatim>\<open>str\<close> of an integer and of a boolean, for the formatted messages.\<close>

fun str_nat :: "nat \<Rightarrow> string" where
  "str_nat n =
     (if n < 10 then [''0123456789'' ! n] else str_nat (n div 10) @ [''0123456789'' ! (n mod 10)])"

declare str_nat.simps [simp del]

definition str_int :: "int \<Rightarrow> string" where
  "str_int i = (if i < 0 then ''-'' @ str_nat (nat (- i)) else str_nat (nat i))"

definition str_bool :: "bool \<Rightarrow> string" where
  "str_bool b = (if b then ''True'' else ''False'')"

definition msg_min_weights :: "int \<Rightarrow> nat \<Rightarrow> string" where
  "msg_min_weights required actual =
     ''The minimum number of weights required to set weights is '' @ str_int required
       @ '', got '' @ str_int (int actual)"

section \<open>root\_register\_extrinsic\<close>

text \<open>
  \<open>reply\<close> is the answer the user gives if \<^verbatim>\<open>Confirm.ask\<close> is called.
  The test \<^verbatim>\<open>success != True or success == False\<close> is kept as written.
  Unlocking the personal key (\<^verbatim>\<open>wallet.personalkey\<close>) belongs to the wallet and is
  left out.
\<close>

definition root_register_extrinsic ::
  "'s basednode \<Rightarrow> bool \<Rightarrow> wallet \<Rightarrow> bool \<Rightarrow> bool \<Rightarrow> bool \<Rightarrow> 's
     \<Rightarrow> (exn + pyval) \<times> event list \<times> 's"
where
  "root_register_extrinsic basednode reply wallet wait_for_inclusion wait_for_finalization prompt s =
    (let key = computekey_ss58_address wallet;
         query = Call_is_computekey_registered 0 key
     in (case is_computekey_registered basednode 0 key s of
          Inl e \<Rightarrow> (Inl e, [query], s)
        | Inr is_registered \<Rightarrow>
           (if is_registered then
              (Inr (PyBool True), [query, Console_print msg_already_memorized], s)
            else if prompt \<and> \<not> reply then
              (Inr (PyBool False), [query, Confirm_ask_register], s)
            else
             (let before = [query] @ (if prompt then [Confirm_ask_register] else [])
                    @ [Console_status msg_creating_link,
                       Call_do_root_register wait_for_inclusion wait_for_finalization];
                  (response, s') =
                     do_root_register basednode wallet wait_for_inclusion wait_for_finalization s
              in (case response of
                   Inl e \<Rightarrow> (Inl e, before, s')
                 | Inr (success, err_msg) \<Rightarrow>
                    (if success \<noteq> True \<or> success = False then
                       (Inr PyNone, before @ [Console_print (msg_failed err_msg), Sleep], s')
                     else
                       (case is_computekey_registered basednode 0 key s' of
                          Inl e \<Rightarrow> (Inl e, before @ [query], s')
                        | Inr is_registered' \<Rightarrow>
                           (if is_registered' then
                              (Inr (PyBool True), before @ [query, Console_print msg_memorized], s')
                            else
                              (Inr PyNone, before @ [query, Console_print msg_unknown_error], s')))))))))"

section \<open>set\_weights\_extrinsic\<close>

text \<open>
  \<open>basedai_basednode\<close> is the constructor \<^verbatim>\<open>basedai.basednode(endpoint)\<close>.
  The conversion to the emitted form happens before the prompt and outside the
  \<^verbatim>\<open>try\<close>: an exception of the helper propagates. Inside the \<^verbatim>\<open>try\<close>, an
  exception of the submission is caught and turned into \<^verbatim>\<open>False\<close>.
  Turning lists into tensors changes nothing in this model: vectors are lists.
\<close>

definition set_weights_extrinsic ::
  "(string \<Rightarrow> 's basednode) \<Rightarrow> weight_utils \<Rightarrow> bool \<Rightarrow> string \<Rightarrow> wallet \<Rightarrow> int
     \<Rightarrow> int list \<Rightarrow> rat list \<Rightarrow> int \<Rightarrow> bool \<Rightarrow> bool \<Rightarrow> bool \<Rightarrow> 's
     \<Rightarrow> (exn + bool) \<times> event list \<times> 's"
where
  "set_weights_extrinsic basedai_basednode wu reply basednode_endpoint wallet netuid uids weights
       version_key wait_for_inclusion wait_for_finalization prompt s =
    (let basednode = basedai_basednode basednode_endpoint;
         converting = [Call_convert_weights_and_uids_for_emit uids weights]
     in (case convert_weights_and_uids_for_emit wu uids weights of
           Inl e \<Rightarrow> (Inl e, converting, s)
         | Inr (weight_uids, weight_vals) \<Rightarrow>
            (let ask = Confirm_ask_set_weights
                         (map (\<lambda>v. rat_of_nat v / 65535) weight_vals) weight_uids
             in if prompt \<and> \<not> reply then (Inr False, converting @ [ask], s)
                else
                 (let before = converting @ (if prompt then [ask] else [])
                        @ [Console_status (msg_setting_weights (network basednode)),
                           Call_do_set_weights netuid weight_uids weight_vals version_key
                             wait_for_finalization wait_for_inclusion];
                      (response, s') =
                         do_set_weights basednode wallet netuid weight_uids weight_vals
                           version_key wait_for_finalization wait_for_inclusion s
                  in (case response of
                        Inl e \<Rightarrow>
                          (Inr False,
                           before @ [Console_print (msg_failed (str_exn e)),
                                     Logging_warning ''Set weights''
                                       (''<red>Failed: </red>'' @ str_exn e)], s')
                      | Inr (success, error_message) \<Rightarrow>
                         (if \<not> wait_for_finalization \<and> \<not> wait_for_inclusion then
                            (Inr True, before, s')
                          else if success then
                            (Inr True,
                             before @ [Console_print msg_finalized,
                                       Logging_success ''Set weights''
                                         (''<green>Finalized: </green>'' @ str_bool success)], s')
                          else
                            (Inr False,
                             before @ [Console_print (msg_failed error_message),
                                       Logging_warning ''Set weights''
                                         (''<red>Failed: </red>'' @ error_message)], s')))))))"

section \<open>set\_root\_weights\_extrinsic\<close>

text \<open>
  \<^verbatim>\<open>torch.argwhere(weights > 0)\<close> gives the positions of the positive weights;
  indexing \<^verbatim>\<open>netuids\<close> with them raises when a position lies beyond its end.
\<close>

definition argwhere_positive :: "rat list \<Rightarrow> nat list" where
  "argwhere_positive weights = filter (\<lambda>i. weights ! i > 0) [0 ..< length weights]"

definition index_select :: "'a list \<Rightarrow> nat list \<Rightarrow> exn + 'a list" where
  "index_select xs idx =
     (if list_all (\<lambda>i. i < length xs) idx then Inr (map (\<lambda>i. xs ! i) idx)
      else Inl (IndexError ''index out of range''))"

definition set_root_weights_extrinsic ::
  "'s basednode \<Rightarrow> weight_utils \<Rightarrow> bool \<Rightarrow> wallet \<Rightarrow> int list \<Rightarrow> rat list \<Rightarrow> int
     \<Rightarrow> bool \<Rightarrow> bool \<Rightarrow> bool \<Rightarrow> 's \<Rightarrow> (exn + bool) \<times> event list \<times> 's"
where
  "set_root_weights_extrinsic basednode wu reply wallet netuids weights version_key
       wait_for_inclusion wait_for_finalization prompt s =
    (let t1 = [Call_min_allowed_weights 0]
     in (case min_allowed_weights basednode 0 s of
           Inl e \<Rightarrow> (Inl e, t1, s)
         | Inr min_allowed \<Rightarrow>
     (let t2 = t1 @ [Call_max_weight_limit 0]
      in (case max_weight_limit basednode 0 s of
            Inl e \<Rightarrow> (Inl e, t2, s)
          | Inr max_limit \<Rightarrow>
      (let non_zero_weight_idx = argwhere_positive weights
       in (case index_select netuids non_zero_weight_idx of
             Inl e \<Rightarrow> (Inl e, t2, s)
           | Inr non_zero_weight_uids \<Rightarrow>
       (case index_select weights non_zero_weight_idx of
             Inl e \<Rightarrow> (Inl e, t2, s)
           | Inr non_zero_weights \<Rightarrow>
        (if int (length non_zero_weights) < min_allowed then
           (Inl (ValueError (msg_min_weights min_allowed (length non_zero_weights))), t2, s)
         else
        (let t3 = t2 @ [Call_normalize_max_weight weights max_limit]
         in (case normalize_max_weight wu weights max_limit of
               Inl e \<Rightarrow> (Inl e, t3, s)
             | Inr formatted_weights \<Rightarrow>
         (let t4 = t3 @ [Console_print_weights weights formatted_weights];
              ask = Confirm_ask_root_weights formatted_weights netuids
          in if prompt \<and> \<not> reply then (Inr False, t4 @ [ask], s)
             else
         (let t5 = t4 @ (if prompt then [ask] else [])
                      @ [Console_status (msg_setting_root_weights (network basednode)),
                         Call_convert_weights_and_uids_for_emit netuids weights]
          in (case convert_weights_and_uids_for_emit wu netuids weights of
                Inl e \<Rightarrow>
                  (Inr False,
                   t5 @ [Console_print (msg_failed (str_exn e)),
                         Logging_warning ''Set weights'' (''<red>Failed: </red>'' @ str_exn e)], s)
              | Inr (weight_uids, weight_vals) \<Rightarrow>
          (let t6 = t5 @ [Call_do_set_weights 0 weight_uids weight_vals version_key
                            wait_for_finalization wait_for_inclusion];
               (response, s') =
                  do_set_weights basednode wallet 0 weight_uids weight_vals version_key
                    wait_for_finalization wait_for_inclusion s
           in (case response of
                 Inl e \<Rightarrow>
                   (Inr False,
                    t6 @ [Console_print (msg_failed (str_exn e)),
                          Logging_warning ''Set weights'' (''<red>Failed: </red>'' @ str_exn e)],
                    s')
               | Inr (success, error_message) \<Rightarrow>
           (let t7 = t6 @ [Console_print_result success error_message]
            in if \<not> wait_for_finalization \<and> \<not> wait_for_inclusion then (Inr True, t7, s')
               else if success then
                 (Inr True,
                  t7 @ [Console_print msg_finalized,
                        Logging_success ''Set weights''
                          (''<green>Finalized: </green>'' @ str_bool success)], s')
               else
                 (Inr False,
                  t7 @ [Console_print (msg_failed error_message),
                        Logging_warning ''Set weights''
                          (''<red>Failed: </red>'' @ error_message)], s')))))))))))))))))"

section \<open>ttl\_set\_weights\_extrinsic\<close>

text \<open>
  The worker is a \<^verbatim>\<open>multiprocessing.Process\<close>. Of the process the model keeps
  whether it runs, has exited by itself or was killed, whether the parent has joined
  (reaped) it, and, once it has exited by itself, what its target returned inside the
  child. Time is counted in seconds from \<^verbatim>\<open>start()\<close>: \<open>duration\<close> is the time the
  target needs to return, \<open>None\<close> when it never returns (a network call that hangs).

  \<^item> \<^verbatim>\<open>join(timeout=ttl)\<close> waits until the worker has exited or \<open>ttl\<close> seconds have
    passed, whichever comes first; a worker that exited is reaped.
  \<^item> \<^verbatim>\<open>terminate()\<close> kills a running worker and does nothing to one that has exited.
  \<^item> \<^verbatim>\<open>join()\<close> waits without limit: on a running worker that never returns it does
    not return either (\<open>None\<close>).
\<close>

datatype proc_status = Running | Exited | Killed

record 'r process =
  status :: proc_status
  joined :: bool
  returned :: "'r option"

definition completes_within :: "nat option \<Rightarrow> int \<Rightarrow> bool" where
  "completes_within duration ttl = (case duration of None \<Rightarrow> False | Some d \<Rightarrow> int d \<le> ttl)"

definition process_start :: "'r process" where
  "process_start = \<lparr> status = Running, joined = False, returned = None \<rparr>"

definition process_exit :: "'r \<Rightarrow> 'r process \<Rightarrow> 'r process" where
  "process_exit r p = p \<lparr> status := Exited, joined := True, returned := Some r \<rparr>"

definition process_join_timeout :: "int \<Rightarrow> nat option \<Rightarrow> 'r \<Rightarrow> 'r process \<Rightarrow> 'r process" where
  "process_join_timeout ttl duration target p =
     (case status p of
        Running \<Rightarrow> if completes_within duration ttl then process_exit target p else p
      | Exited \<Rightarrow> p \<lparr> joined := True \<rparr>
      | Killed \<Rightarrow> p \<lparr> joined := True \<rparr>)"

definition process_is_alive :: "'r process \<Rightarrow> bool" where
  "process_is_alive p = (status p = Running)"

definition process_terminate :: "'r process \<Rightarrow> 'r process" where
  "process_terminate p = (if status p = Running then p \<lparr> status := Killed \<rparr> else p)"

definition process_join :: "nat option \<Rightarrow> 'r \<Rightarrow> 'r process \<Rightarrow> 'r process option" where
  "process_join duration target p =
     (case status p of
        Running \<Rightarrow> (case duration of None \<Rightarrow> None | Some d \<Rightarrow> Some (process_exit target p))
      | Exited \<Rightarrow> Some (p \<lparr> joined := True \<rparr>)
      | Killed \<Rightarrow> Some (p \<lparr> joined := True \<rparr>))"

text \<open>
  The guard. The target of the worker is \<open>set_weights_extrinsic\<close> on the endpoint of
  the caller's node; \<open>target\<close> is what that call returns or raises in the child. The
  result is \<open>None\<close> if the guard does not return, and otherwise the returned boolean with
  the final state of the process object.
\<close>

definition ttl_set_weights_extrinsic ::
  "(string \<Rightarrow> 's basednode) \<Rightarrow> weight_utils \<Rightarrow> bool \<Rightarrow> nat option \<Rightarrow> 's basednode \<Rightarrow> wallet
     \<Rightarrow> int \<Rightarrow> int list \<Rightarrow> rat list \<Rightarrow> int \<Rightarrow> bool \<Rightarrow> bool \<Rightarrow> bool \<Rightarrow> int \<Rightarrow> 's
     \<Rightarrow> (bool \<times> (exn + bool) process) option"
where
  "ttl_set_weights_extrinsic basedai_basednode wu reply duration basednode wallet netuid uids
       weights version_key wait_for_inclusion wait_for_finalization prompt ttl s =
    (let target = fst (set_weights_extrinsic basedai_basednode wu reply (chain_endpoint basednode)
                         wallet netuid uids weights version_key wait_for_inclusion
                         wait_for_finalization prompt s);
         process = process_start;
         process = process_join_timeout ttl duration target process
     in if process_is_alive process then
          (case process_join duration target (process_terminate process) of
             None \<Rightarrow> None
           | Some process \<Rightarrow> Some (False, process))
        else Some (True, process))"

section \<open>The helpers of weight\_utils, for concrete runs\<close>

text \<open>
  Python's built-in \<^verbatim>\<open>round\<close> on an exact fraction: a tie goes to the even
  neighbour. The fixed-point encoding below applies it.
\<close>

definition py_round :: "rat \<Rightarrow> int" where
  "py_round x =
     (let f = \<lfloor>x\<rfloor>; d = x - of_int f
      in if d < 1 / 2 then f else if 1 / 2 < d then f + 1 else if even f then f else f + 1)"

text \<open>
  Modelled from the spec: \<^verbatim>\<open>normalize_max_weight\<close> of \<^verbatim>\<open>basedai/utils/weight_utils.py\<close>,
  which is missing from the sources. Section 4.1: every weight is scaled by the one factor
  that maps the largest weight to the limit, then clipped to the limit; an empty or
  all-zero vector is returned unchanged.
\<close>

definition spec_normalize_max_weight :: "rat list \<Rightarrow> rat \<Rightarrow> exn + rat list" where
  "spec_normalize_max_weight x limit =
     (if x = [] \<or> list_all (\<lambda>w. w = 0) x then Inr x
      else Inr (map (\<lambda>w. min (w * (limit / Max (set x))) limit) x))"

text \<open>
  Modelled from the spec: \<^verbatim>\<open>convert_weights_and_uids_for_emit\<close> of
  \<^verbatim>\<open>basedai/utils/weight_utils.py\<close>, which is missing from the sources. Sections 4.1
  and 7: mismatched lengths, duplicate uids and negative weights are invalid input; each
  weight \<open>w\<close> becomes \<open>round (w / max * 65535)\<close>, an all-zero vector is encoded as zeros, and
  the pairs are emitted in ascending order of uid.
\<close>

definition spec_convert_weights_and_uids_for_emit ::
  "int list \<Rightarrow> rat list \<Rightarrow> exn + int list \<times> nat list"
where
  "spec_convert_weights_and_uids_for_emit uids weights =
     (if length uids \<noteq> length weights \<or> \<not> distinct uids \<or> list_ex (\<lambda>w. w < 0) weights then
        Inl (ValueError ''InvalidInput'')
      else
        (let vals = (if weights = [] \<or> list_all (\<lambda>w. w = 0) weights then map (\<lambda>w. 0) weights
                     else map (\<lambda>w. nat (py_round (w / Max (set weights) * 65535))) weights);
             pairs = sort_key fst (zip uids vals)
         in Inr (map fst pairs, map snd pairs)))"

definition spec_weight_utils :: weight_utils where
  "spec_weight_utils =
     \<lparr> normalize_max_weight = spec_normalize_max_weight,
       convert_weights_and_uids_for_emit = spec_convert_weights_and_uids_for_emit \<rparr>"

text \<open>What a run did: the registration submissions and the status queries in a trace.\<close>

fun is_submission :: "event \<Rightarrow> bool" where
  "is_submission (Call_do_root_register _ _) = True"
| "is_submission (Call_do_set_weights _ _ _ _ _ _) = True"
| "is_submission _ = False"

fun is_status_query :: "event \<Rightarrow> bool" where
  "is_status_query (Call_is_computekey_registered _ _) = True"
| "is_status_query _ = False"

fun is_confirm_ask :: "event \<Rightarrow> bool" where
  "is_confirm_ask Confirm_ask_register = True"
| "is_confirm_ask (Confirm_ask_set_weights _ _) = True"
| "is_confirm_ask (Confirm_ask_root_weights _ _) = True"
| "is_confirm_ask _ = False"

definition submissions :: "event list \<Rightarrow> event list" where
  "submissions tr = filter is_submission tr"

text \<open>The number of status queries a run made from its first submission on.\<close>

definition status_queries_after_submission :: "event list \<Rightarrow> nat" where
  "status_queries_after_submission tr =
     length (filter is_status_query (dropWhile (\<lambda>e. \<not> is_submission e) tr))"

text \<open>
  A chain for concrete runs. Its state is the registration flag of the one key it knows;
  a registration submission answers \<open>answer\<close> and leaves the flag at \<open>after\<close>.
\<close>

definition flag_chain :: "bool \<times> string \<Rightarrow> bool \<Rightarrow> bool basednode" where
  "flag_chain answer after =
     \<lparr> network = ''prometheus'', chain_endpoint = ''ws://127.0.0.1:9944'',
       is_computekey_registered = (\<lambda>netuid key s. Inr s),
       do_root_register = (\<lambda>w wi wf s. (Inr answer, after)),
       min_allowed_weights = (\<lambda>netuid s. Inr 1),
       max_weight_limit = (\<lambda>netuid s. Inr 1),
       do_set_weights = (\<lambda>w netuid uids vals vk wf wi s. (Inr answer, s)) \<rparr>"

definition alice :: wallet where
  "alice = \<lparr> computekey_ss58_address = ''5Alice'' \<rparr>"

fun is_console_status :: "event \<Rightarrow> bool" where
  "is_console_status (Console_status _) = True"
| "is_console_status _ = False"

text \<open>
  The effects of a run of \<open>set_root_weights_extrinsic\<close> from its start to the call of the
  conversion helper on the weight vector \<open>converted\<close>.
\<close>

definition effects_up_to_conversion ::
  "'s basednode \<Rightarrow> int list \<Rightarrow> rat list \<Rightarrow> rat \<Rightarrow> rat list \<Rightarrow> bool \<Rightarrow> rat list \<Rightarrow> event list"
where
  "effects_up_to_conversion basednode netuids weights max_limit formatted_weights prompt converted =
     [Call_min_allowed_weights 0, Call_max_weight_limit 0,
      Call_normalize_max_weight weights max_limit,
      Console_print_weights weights formatted_weights]
     @ (if prompt then [Confirm_ask_root_weights formatted_weights netuids] else [])
     @ [Console_status (msg_setting_root_weights (network basednode)),
        Call_convert_weights_and_uids_for_emit netuids converted]"

text \<open>
  Variants of the chain: one whose weight submission raises, one that asks for a given
  number of weights, and a constructor of nodes that reject every submission.
\<close>

definition failing_chain :: "exn \<Rightarrow> bool basednode" where
  "failing_chain e =
     (flag_chain (True, []) True) \<lparr> do_set_weights := (\<lambda>w netuid uids vals vk wf wi s. (Inl e, s)) \<rparr>"

definition demanding_chain :: "int \<Rightarrow> bool basednode" where
  "demanding_chain required =
     (flag_chain (True, []) True) \<lparr> min_allowed_weights := (\<lambda>netuid s. Inr required) \<rparr>"

definition rejecting_node :: "string \<Rightarrow> bool basednode" where
  "rejecting_node endpoint = flag_chain (False, ''rejected'') True"

definition failing_node :: "exn \<Rightarrow> string \<Rightarrow> bool basednode" where
  "failing_node e endpoint = failing_chain e"

section \<open>Properties of root\_register\_extrinsic\<close>

text \<open>
  C5. For a participant that is already registered (the first status query for netuid 0
  answers true) the call returns \<^verbatim>\<open>True\<close> at once: its only effects are that query and
  the console line, there is no registration submission, and the chain's state is
  untouched. Hence idempotency: whenever a call has returned \<^verbatim>\<open>True\<close>, a second call
  on the state it left, with any flags and any reply, returns \<^verbatim>\<open>True\<close> with the same two
  effects and submits nothing.
\<close>

theorem root_register_idempotent:
  fixes basednode :: "'s basednode"
  shows
  "(is_computekey_registered basednode 0 (computekey_ss58_address wallet) s = Inr True \<longrightarrow>
      root_register_extrinsic basednode reply wallet wait_for_inclusion wait_for_finalization prompt s
        = (Inr (PyBool True),
           [Call_is_computekey_registered 0 (computekey_ss58_address wallet),
            Console_print msg_already_memorized], s))
   \<and> (fst (root_register_extrinsic basednode reply wallet wait_for_inclusion wait_for_finalization prompt s)
          = Inr (PyBool True) \<longrightarrow>
        root_register_extrinsic basednode reply' wallet wait_for_inclusion' wait_for_finalization' prompt'
          (snd (snd (root_register_extrinsic basednode reply wallet wait_for_inclusion
                       wait_for_finalization prompt s)))
        = (Inr (PyBool True),
           [Call_is_computekey_registered 0 (computekey_ss58_address wallet),
            Console_print msg_already_memorized],
           snd (snd (root_register_extrinsic basednode reply wallet wait_for_inclusion
                       wait_for_finalization prompt s))))"
  by (auto simp: root_register_extrinsic_def Let_def split: sum.splits prod.splits if_splits)

text \<open>
  Both parts at a concrete chain: a call on a registered key, and a first call that
  registers (one submission) followed by a second call that submits nothing.
\<close>

theorem root_register_idempotent_witness:
  "is_computekey_registered (flag_chain (True, []) True) 0 (computekey_ss58_address alice) True = Inr True
   \<and> root_register_extrinsic (flag_chain (True, []) True) False alice False True True True
        = (Inr (PyBool True),
           [Call_is_computekey_registered 0 ''5Alice'', Console_print msg_already_memorized], True)
   \<and> fst (root_register_extrinsic (flag_chain (True, []) True) False alice False True False False)
        = Inr (PyBool True)
   \<and> submissions (fst (snd (root_register_extrinsic (flag_chain (True, []) True) False alice False True False False)))
        = [Call_do_root_register False True]
   \<and> root_register_extrinsic (flag_chain (True, []) True) False alice False True False
        (snd (snd (root_register_extrinsic (flag_chain (True, []) True) False alice False True False False)))
        = (Inr (PyBool True),
           [Call_is_computekey_registered 0 ''5Alice'', Console_print msg_already_memorized], True)"
  using root_register_idempotent [of "flag_chain (True, []) True" alice True False False True True]
    root_register_idempotent [of "flag_chain (True, []) True" alice False False False True False False False True False]
  by (simp add: flag_chain_def alice_def root_register_extrinsic_def submissions_def Let_def)

text \<open>
  C4, as the code has it. Take a participant that is not registered, a confirmation that is
  not declined, a submission that returns \<open>(success, err_msg)\<close> and a chain whose status
  afterwards is \<open>post\<close>. Then there is exactly one submission; the status is queried again
  once if the call reported success and not at all if it reported failure; the call
  returns \<^verbatim>\<open>True\<close> exactly when the call reported success and the re-query shows the
  participant registered; it never raises; on a reported failure the console shows the
  call's message, and on a reported success that the re-query does not bear out it shows
  the generic message.
\<close>

theorem root_register_recheck:
  fixes basednode :: "'s basednode"
  assumes "is_computekey_registered basednode 0 (computekey_ss58_address wallet) s = Inr False"
      and "\<not> (prompt \<and> \<not> reply)"
      and "do_root_register basednode wallet wait_for_inclusion wait_for_finalization s
             = (Inr (success, err_msg), s')"
      and "is_computekey_registered basednode 0 (computekey_ss58_address wallet) s' = Inr post"
  shows "case root_register_extrinsic basednode reply wallet wait_for_inclusion
                wait_for_finalization prompt s of
           (r, tr, s'') \<Rightarrow>
             s'' = s'
             \<and> submissions tr = [Call_do_root_register wait_for_inclusion wait_for_finalization]
             \<and> status_queries_after_submission tr = (if success then 1 else 0)
             \<and> (r = Inr (PyBool True) \<longleftrightarrow> success \<and> post)
             \<and> (\<exists>v. r = Inr v)
             \<and> (\<not> success \<longrightarrow> Console_print (msg_failed err_msg) \<in> set tr)
             \<and> (success \<and> \<not> post \<longrightarrow> Console_print msg_unknown_error \<in> set tr)"
  using assms
  by (auto simp: root_register_extrinsic_def Let_def submissions_def
        status_queries_after_submission_def)

theorem root_register_recheck_witness:
  "is_computekey_registered (flag_chain (True, []) True) 0 (computekey_ss58_address alice) False
     = Inr False
   \<and> do_root_register (flag_chain (True, []) True) alice False True False = (Inr (True, []), True)
   \<and> is_computekey_registered (flag_chain (True, []) True) 0 (computekey_ss58_address alice) True
     = Inr True
   \<and> fst (root_register_extrinsic (flag_chain (True, []) True) False alice False True False False)
     = Inr (PyBool True)
   \<and> status_queries_after_submission
       (fst (snd (root_register_extrinsic (flag_chain (True, []) True) False alice False True False False)))
     = 1"
  using root_register_recheck [of "flag_chain (True, []) True" alice False False False False True
          True "[]" True True]
  by (simp add: flag_chain_def alice_def root_register_extrinsic_def Let_def
        status_queries_after_submission_def)

text \<open>
  C4 as the specification words it fails. Here the submission reports failure while the
  chain's status afterwards shows the participant registered: the status is not queried
  again, and the call ends without a \<^verbatim>\<open>return\<close>, handing back \<^verbatim>\<open>None\<close>.
\<close>

theorem root_register_recheck_counterexample:
  "is_computekey_registered (flag_chain (False, ''rejected'') True) 0 (computekey_ss58_address alice)
      (snd (snd (root_register_extrinsic (flag_chain (False, ''rejected'') True) True alice False True False False)))
     = Inr True
   \<and> fst (root_register_extrinsic (flag_chain (False, ''rejected'') True) True alice False True False False)
     = Inr PyNone
   \<and> status_queries_after_submission
       (fst (snd (root_register_extrinsic (flag_chain (False, ''rejected'') True) True alice False True False False)))
     = 0"
  by (simp add: flag_chain_def alice_def root_register_extrinsic_def
        status_queries_after_submission_def Let_def)


section \<open>Properties of the weight-setting extrinsics\<close>

text \<open>
  The positions of the positive weights select, from the weights themselves, exactly the
  positive weights in their order; from the netuids they select without error as soon as
  there are at least as many netuids as weights.
\<close>

lemma index_select_positive:
  "index_select weights (argwhere_positive weights) = Inr (filter (\<lambda>w. 0 < w) weights)"
proof -
  have "list_all (\<lambda>i. i < length weights) (argwhere_positive weights)"
    by (simp add: argwhere_positive_def list_all_iff)
  moreover have "map (\<lambda>i. weights ! i) (argwhere_positive weights) = filter (\<lambda>w. 0 < w) weights"
  proof -
    have "filter (\<lambda>w. 0 < w) weights = filter (\<lambda>w. 0 < w) (map (\<lambda>i. weights ! i) [0 ..< length weights])"
      by (simp add: map_nth)
    also have "\<dots> = map (\<lambda>i. weights ! i) (filter ((\<lambda>w. 0 < w) \<circ> (\<lambda>i. weights ! i)) [0 ..< length weights])"
      by (rule filter_map)
    finally show ?thesis by (simp add: argwhere_positive_def comp_def)
  qed
  ultimately show ?thesis by (simp add: index_select_def)
qed

lemma index_select_netuids:
  "length weights \<le> length netuids \<Longrightarrow>
     index_select netuids (argwhere_positive weights)
       = Inr (map (\<lambda>i. netuids ! i) (argwhere_positive weights))"
  by (auto simp: index_select_def argwhere_positive_def list_all_iff)

text \<open>
  C6. In \<open>set_root_weights_extrinsic\<close>, for netuids and weights of the same length, only
  the entries with a weight above zero are counted; if that count is below the chain's
  minimum, the call raises a \<^verbatim>\<open>ValueError\<close> whose message names the required and the
  actual count. At that point the only effects are the two parameter queries: nothing was
  normalized, asked or submitted, and the chain's state is unchanged.
\<close>

theorem insufficient_weights_raise:
  fixes basednode :: "'s basednode"
  assumes "min_allowed_weights basednode 0 s = Inr min_allowed"
      and "max_weight_limit basednode 0 s = Inr max_limit"
      and "length netuids = length weights"
      and "int (length (filter (\<lambda>w. 0 < w) weights)) < min_allowed"
  shows "set_root_weights_extrinsic basednode wu reply wallet netuids weights version_key
           wait_for_inclusion wait_for_finalization prompt s
         = (Inl (ValueError (msg_min_weights min_allowed (length (filter (\<lambda>w. 0 < w) weights)))),
            [Call_min_allowed_weights 0, Call_max_weight_limit 0], s)"
  using assms
  by (simp add: set_root_weights_extrinsic_def Let_def index_select_positive index_select_netuids)

text \<open>
  The example of the specification: of \<open>[(1, 0), (2, 1/2), (3, -1)]\<close> one weight is
  positive, and a chain that requires two refuses the call.
\<close>

theorem insufficient_weights_raise_witness:
  "min_allowed_weights (demanding_chain 2) 0 False = Inr 2
   \<and> max_weight_limit (demanding_chain 2) 0 False = Inr 1
   \<and> int (length (filter (\<lambda>w. 0 < w) [0, 1 / 2, - 1 :: rat])) < 2
   \<and> set_root_weights_extrinsic (demanding_chain 2) spec_weight_utils True alice [1, 2, 3]
        [0, 1 / 2, - 1] 0 True True False False
      = (Inl (ValueError ''The minimum number of weights required to set weights is 2, got 1''),
         [Call_min_allowed_weights 0, Call_max_weight_limit 0], False)"
  using insufficient_weights_raise [where basednode = "demanding_chain 2" and s = False
          and min_allowed = 2 and max_limit = 1 and netuids = "[1, 2, 3]"
          and weights = "[0, 1 / 2, - 1]" and wu = spec_weight_utils and reply = True
          and wallet = alice and version_key = 0 and wait_for_inclusion = True
          and wait_for_finalization = True and prompt = False]
  by (simp add: demanding_chain_def flag_chain_def msg_min_weights_def str_int_def str_nat.simps)

text \<open>
  C7. With neither \<^verbatim>\<open>wait_for_inclusion\<close> nor \<^verbatim>\<open>wait_for_finalization\<close>, once the
  submission call has returned a pair \<open>(success, error_message)\<close>, whatever the pair is,
  both \<open>set_weights_extrinsic\<close> and \<open>set_root_weights_extrinsic\<close> return \<^verbatim>\<open>True\<close>. In
  the first the submission is the last effect; in the second only the console line that
  prints the pair follows it.
\<close>

theorem unconfirmed_returns_true:
  fixes basedai_basednode :: "string \<Rightarrow> 's basednode" and basednode :: "'s basednode"
  shows
  "(convert_weights_and_uids_for_emit wu uids weights = Inr (weight_uids, weight_vals)
      \<and> \<not> (prompt \<and> \<not> reply)
      \<and> do_set_weights (basedai_basednode endpoint) wallet netuid weight_uids weight_vals
            version_key False False s = (Inr (success, error_message), s')
    \<longrightarrow> (case set_weights_extrinsic basedai_basednode wu reply endpoint wallet netuid uids weights
                 version_key False False prompt s of
           (r, tr, s'') \<Rightarrow>
             r = Inr True \<and> s'' = s'
             \<and> last tr = Call_do_set_weights netuid weight_uids weight_vals version_key False False))
   \<and> (min_allowed_weights basednode 0 s = Inr min_allowed
      \<and> max_weight_limit basednode 0 s = Inr max_limit
      \<and> length netuids = length root_weights
      \<and> min_allowed \<le> int (length (filter (\<lambda>w. 0 < w) root_weights))
      \<and> normalize_max_weight wu root_weights max_limit = Inr formatted_weights
      \<and> \<not> (prompt \<and> \<not> reply)
      \<and> convert_weights_and_uids_for_emit wu netuids root_weights = Inr (weight_uids, weight_vals)
      \<and> do_set_weights basednode wallet 0 weight_uids weight_vals version_key False False s
           = (Inr (success, error_message), s')
    \<longrightarrow> (case set_root_weights_extrinsic basednode wu reply wallet netuids root_weights version_key
                 False False prompt s of
           (r, tr, s'') \<Rightarrow>
             r = Inr True \<and> s'' = s'
             \<and> submissions tr = [Call_do_set_weights 0 weight_uids weight_vals version_key False False]
             \<and> last tr = Console_print_result success error_message))"
  by (auto simp: set_weights_extrinsic_def set_root_weights_extrinsic_def Let_def submissions_def
        index_select_positive index_select_netuids)

text \<open>A chain that rejects the submission: both calls still return \<^verbatim>\<open>True\<close>.\<close>

theorem unconfirmed_returns_true_witness:
  "convert_weights_and_uids_for_emit spec_weight_utils [10, 20] [1, 3] = Inr ([10, 20], [21845, 65535])
   \<and> do_set_weights (rejecting_node ''ws://127.0.0.1:9944'') alice 1 [10, 20] [21845, 65535] 0 False False False
        = (Inr (False, ''rejected''), False)
   \<and> fst (set_weights_extrinsic rejecting_node spec_weight_utils True ''ws://127.0.0.1:9944'' alice 1
             [10, 20] [1, 3] 0 False False False False) = Inr True
   \<and> min_allowed_weights (flag_chain (False, ''rejected'') True) 0 False = Inr 1
   \<and> normalize_max_weight spec_weight_utils [1, 3] 1 = Inr [1 / 3, 1]
   \<and> fst (set_root_weights_extrinsic (flag_chain (False, ''rejected'') True) spec_weight_utils True
             alice [10, 20] [1, 3] 0 False False False False) = Inr True"
proof -
  have c: "convert_weights_and_uids_for_emit spec_weight_utils [10, 20] [1, 3]
             = Inr ([10, 20], [21845, 65535])"
    by (simp add: spec_weight_utils_def spec_convert_weights_and_uids_for_emit_def py_round_def)
  have d: "do_set_weights (rejecting_node ''ws://127.0.0.1:9944'') alice 1 [10, 20] [21845, 65535]
             0 False False False = (Inr (False, ''rejected''), False)"
    by (simp add: rejecting_node_def flag_chain_def)
  have m: "min_allowed_weights (flag_chain (False, ''rejected'') True) 0 False = Inr 1"
    and l: "max_weight_limit (flag_chain (False, ''rejected'') True) 0 False = Inr 1"
    and d': "do_set_weights (flag_chain (False, ''rejected'') True) alice 0 [10, 20]
               [21845, 65535] 0 False False False = (Inr (False, ''rejected''), False)"
    by (simp_all add: flag_chain_def)
  have n: "normalize_max_weight spec_weight_utils [1, 3] 1 = Inr [1 / 3, 1]"
    by (simp add: spec_weight_utils_def spec_normalize_max_weight_def)
  have k: "(1::int) \<le> int (length (filter (\<lambda>w. 0 < w) [1, 3 :: rat]))"
    by simp
  from c d m l d' n k
    unconfirmed_returns_true [where basedai_basednode = rejecting_node and wu = spec_weight_utils
          and uids = "[10, 20]" and weights = "[1, 3]" and weight_uids = "[10, 20]"
          and weight_vals = "[21845, 65535]" and prompt = False and reply = True
          and endpoint = "''ws://127.0.0.1:9944''" and wallet = alice and netuid = 1
          and version_key = 0 and s = False and success = False and error_message = "''rejected''"
          and s' = False and basednode = "flag_chain (False, ''rejected'') True" and min_allowed = 1
          and max_limit = 1 and netuids = "[10, 20]" and root_weights = "[1, 3]"
          and formatted_weights = "[1 / 3, 1]"]
  show ?thesis
    by (auto split: prod.splits)
qed

text \<open>
  C8. In each of the three extrinsics, when \<^verbatim>\<open>prompt\<close> is set, the confirmation was asked
  and the reply is no, the call returns \<^verbatim>\<open>False\<close>, the question is its last effect, no
  submission (\<^verbatim>\<open>_do_set_weights\<close>, \<^verbatim>\<open>_do_root_register\<close>) is among its effects and the
  chain's state is unchanged.
\<close>

theorem declined_confirmation_aborts:
  fixes basedai_basednode :: "string \<Rightarrow> 's basednode" and basednode :: "'s basednode"
  shows
  "(case set_weights_extrinsic basedai_basednode wu reply endpoint wallet netuid uids weights
           version_key wait_for_inclusion wait_for_finalization prompt s of
      (r, tr, s') \<Rightarrow>
        prompt \<and> \<not> reply \<and> list_ex is_confirm_ask tr \<longrightarrow>
          r = Inr False \<and> submissions tr = [] \<and> is_confirm_ask (last tr) \<and> s' = s)
   \<and> (case set_root_weights_extrinsic basednode wu reply wallet netuids weights version_key
             wait_for_inclusion wait_for_finalization prompt s of
        (r, tr, s') \<Rightarrow>
          prompt \<and> \<not> reply \<and> list_ex is_confirm_ask tr \<longrightarrow>
            r = Inr False \<and> submissions tr = [] \<and> is_confirm_ask (last tr) \<and> s' = s)
   \<and> (case root_register_extrinsic basednode reply wallet wait_for_inclusion
             wait_for_finalization prompt s of
        (r, tr, s') \<Rightarrow>
          prompt \<and> \<not> reply \<and> list_ex is_confirm_ask tr \<longrightarrow>
            r = Inr (PyBool False) \<and> submissions tr = [] \<and> is_confirm_ask (last tr) \<and> s' = s)"
proof (intro conjI)
  show "case set_weights_extrinsic basedai_basednode wu reply endpoint wallet netuid uids weights
           version_key wait_for_inclusion wait_for_finalization prompt s of
      (r, tr, s') \<Rightarrow>
        prompt \<and> \<not> reply \<and> list_ex is_confirm_ask tr \<longrightarrow>
          r = Inr False \<and> submissions tr = [] \<and> is_confirm_ask (last tr) \<and> s' = s"
    by (auto simp: set_weights_extrinsic_def Let_def submissions_def split: sum.splits prod.splits)
  show "case set_root_weights_extrinsic basednode wu reply wallet netuids weights version_key
             wait_for_inclusion wait_for_finalization prompt s of
        (r, tr, s') \<Rightarrow>
          prompt \<and> \<not> reply \<and> list_ex is_confirm_ask tr \<longrightarrow>
            r = Inr False \<and> submissions tr = [] \<and> is_confirm_ask (last tr) \<and> s' = s"
    by (auto simp: set_root_weights_extrinsic_def Let_def submissions_def
          split: sum.splits prod.splits)
  show "case root_register_extrinsic basednode reply wallet wait_for_inclusion
             wait_for_finalization prompt s of
        (r, tr, s') \<Rightarrow>
          prompt \<and> \<not> reply \<and> list_ex is_confirm_ask tr \<longrightarrow>
            r = Inr (PyBool False) \<and> submissions tr = [] \<and> is_confirm_ask (last tr) \<and> s' = s"
    by (auto simp: root_register_extrinsic_def Let_def submissions_def
          split: sum.splits prod.splits)
qed

theorem declined_confirmation_aborts_witness:
  "set_weights_extrinsic rejecting_node spec_weight_utils False ''ws://127.0.0.1:9944'' alice 1
       [10, 20] [1, 3] 0 True True True False
     = (Inr False,
        [Call_convert_weights_and_uids_for_emit [10, 20] [1, 3],
         Confirm_ask_set_weights [1 / 3, 1] [10, 20]], False)
   \<and> set_root_weights_extrinsic (flag_chain (True, []) True) spec_weight_utils False alice
        [10, 20] [1, 3] 0 True True True False
     = (Inr False,
        [Call_min_allowed_weights 0, Call_max_weight_limit 0,
         Call_normalize_max_weight [1, 3] 1, Console_print_weights [1, 3] [1 / 3, 1],
         Confirm_ask_root_weights [1 / 3, 1] [10, 20]], False)
   \<and> root_register_extrinsic (flag_chain (True, []) True) False alice False True True False
     = (Inr (PyBool False),
        [Call_is_computekey_registered 0 ''5Alice'', Confirm_ask_register], False)"
  using declined_confirmation_aborts [where basedai_basednode = rejecting_node
          and wu = spec_weight_utils and reply = False and endpoint = "''ws://127.0.0.1:9944''"
          and wallet = alice and netuid = 1 and uids = "[10, 20]" and weights = "[1, 3]"
          and version_key = 0 and wait_for_inclusion = True and wait_for_finalization = True
          and prompt = True and s = False and basednode = "flag_chain (True, []) True"
          and netuids = "[10, 20]"]
  by (simp add: rejecting_node_def flag_chain_def alice_def spec_weight_utils_def
        spec_convert_weights_and_uids_for_emit_def spec_normalize_max_weight_def py_round_def
        set_weights_extrinsic_def set_root_weights_extrinsic_def root_register_extrinsic_def
        Let_def argwhere_positive_def index_select_def)


text \<open>
  C10. The two error channels of the weight-setting functions. First, in
  \<open>set_root_weights_extrinsic\<close> the check of the number of positive weights raises a
  \<^verbatim>\<open>ValueError\<close> that reaches the caller. Second, once a run of
  \<open>set_root_weights_extrinsic\<close> or of \<open>set_weights_extrinsic\<close> has entered the
  \<^verbatim>\<open>with\<close> block that holds the \<^verbatim>\<open>try\<close> (the console status is among its effects),
  it returns a boolean and raises nothing; in particular an exception of the conversion
  helper (called inside the \<^verbatim>\<open>try\<close> in the root variant) or of \<^verbatim>\<open>_do_set_weights\<close>
  becomes the return value \<^verbatim>\<open>False\<close>.
\<close>

theorem error_channels:
  fixes basedai_basednode :: "string \<Rightarrow> 's basednode" and basednode :: "'s basednode"
  shows
  "(min_allowed_weights basednode 0 s = Inr min_allowed
      \<and> max_weight_limit basednode 0 s = Inr max_limit
      \<and> length netuids = length weights
      \<and> int (length (filter (\<lambda>w. 0 < w) weights)) < min_allowed
    \<longrightarrow> fst (set_root_weights_extrinsic basednode wu reply wallet netuids weights version_key
               wait_for_inclusion wait_for_finalization prompt s)
          = Inl (ValueError (msg_min_weights min_allowed (length (filter (\<lambda>w. 0 < w) weights)))))
   \<and> (case set_root_weights_extrinsic basednode wu reply wallet netuids weights version_key
             wait_for_inclusion wait_for_finalization prompt s of
        (r, tr, s') \<Rightarrow>
          list_ex is_console_status tr \<longrightarrow>
            (\<exists>b. r = Inr b)
            \<and> (\<forall>e. convert_weights_and_uids_for_emit wu netuids weights = Inl e \<longrightarrow> r = Inr False)
            \<and> (\<forall>u v e. convert_weights_and_uids_for_emit wu netuids weights = Inr (u, v)
                  \<and> fst (do_set_weights basednode wallet 0 u v version_key
                           wait_for_finalization wait_for_inclusion s) = Inl e
                  \<longrightarrow> r = Inr False))
   \<and> (case set_weights_extrinsic basedai_basednode wu reply endpoint wallet netuid uids weights
             version_key wait_for_inclusion wait_for_finalization prompt s of
        (r, tr, s') \<Rightarrow>
          list_ex is_console_status tr \<longrightarrow>
            (\<exists>b. r = Inr b)
            \<and> (\<forall>u v e. convert_weights_and_uids_for_emit wu uids weights = Inr (u, v)
                  \<and> fst (do_set_weights (basedai_basednode endpoint) wallet netuid u v version_key
                           wait_for_finalization wait_for_inclusion s) = Inl e
                  \<longrightarrow> r = Inr False))"
proof (intro conjI)
  show "min_allowed_weights basednode 0 s = Inr min_allowed
      \<and> max_weight_limit basednode 0 s = Inr max_limit
      \<and> length netuids = length weights
      \<and> int (length (filter (\<lambda>w. 0 < w) weights)) < min_allowed
    \<longrightarrow> fst (set_root_weights_extrinsic basednode wu reply wallet netuids weights version_key
               wait_for_inclusion wait_for_finalization prompt s)
          = Inl (ValueError (msg_min_weights min_allowed (length (filter (\<lambda>w. 0 < w) weights))))"
    by (simp add: set_root_weights_extrinsic_def Let_def index_select_positive index_select_netuids)
  show "case set_root_weights_extrinsic basednode wu reply wallet netuids weights version_key
             wait_for_inclusion wait_for_finalization prompt s of
        (r, tr, s') \<Rightarrow>
          list_ex is_console_status tr \<longrightarrow>
            (\<exists>b. r = Inr b)
            \<and> (\<forall>e. convert_weights_and_uids_for_emit wu netuids weights = Inl e \<longrightarrow> r = Inr False)
            \<and> (\<forall>u v e. convert_weights_and_uids_for_emit wu netuids weights = Inr (u, v)
                  \<and> fst (do_set_weights basednode wallet 0 u v version_key
                           wait_for_finalization wait_for_inclusion s) = Inl e
                  \<longrightarrow> r = Inr False)"
    by (auto simp: set_root_weights_extrinsic_def Let_def split: sum.splits prod.splits)
  show "case set_weights_extrinsic basedai_basednode wu reply endpoint wallet netuid uids weights
             version_key wait_for_inclusion wait_for_finalization prompt s of
        (r, tr, s') \<Rightarrow>
          list_ex is_console_status tr \<longrightarrow>
            (\<exists>b. r = Inr b)
            \<and> (\<forall>u v e. convert_weights_and_uids_for_emit wu uids weights = Inr (u, v)
                  \<and> fst (do_set_weights (basedai_basednode endpoint) wallet netuid u v version_key
                           wait_for_finalization wait_for_inclusion s) = Inl e
                  \<longrightarrow> r = Inr False)"
    by (auto simp: set_weights_extrinsic_def Let_def split: sum.splits prod.splits)
qed

text \<open>
  A chain that requires two weights where one is positive; a vector with a negative weight,
  which the conversion refuses inside the \<^verbatim>\<open>try\<close>; a node whose submission raises.
\<close>

theorem error_channels_witness:
  "fst (set_root_weights_extrinsic (demanding_chain 2) spec_weight_utils True alice [1, 2, 3]
          [0, 1 / 2, - 1] 0 True True False False)
     = Inl (ValueError ''The minimum number of weights required to set weights is 2, got 1'')
   \<and> convert_weights_and_uids_for_emit spec_weight_utils [1, 2, 3] [0, 1 / 2, - 1]
     = Inl (ValueError ''InvalidInput'')
   \<and> fst (set_root_weights_extrinsic (flag_chain (True, []) True) spec_weight_utils True alice
            [1, 2, 3] [0, 1 / 2, - 1] 0 True True False False)
     = Inr False
   \<and> fst (do_set_weights (failing_node (OtherException ''connection lost'') ''ws://127.0.0.1:9944'')
            alice 1 [10, 20] [21845, 65535] 0 True True False)
     = Inl (OtherException ''connection lost'')
   \<and> fst (set_weights_extrinsic (failing_node (OtherException ''connection lost'')) spec_weight_utils
            True ''ws://127.0.0.1:9944'' alice 1 [10, 20] [1, 3] 0 True True False False)
     = Inr False"
proof -
  have m: "min_allowed_weights (demanding_chain 2) 0 False = Inr 2"
    and l: "max_weight_limit (demanding_chain 2) 0 False = Inr 1"
    by (simp_all add: demanding_chain_def flag_chain_def)
  have k: "int (length (filter (\<lambda>w. 0 < w) [0, 1 / 2, - 1 :: rat])) < 2"
    by simp
  have msg: "msg_min_weights 2 (length (filter (\<lambda>w. 0 < w) [0, 1 / 2, - 1 :: rat]))
               = ''The minimum number of weights required to set weights is 2, got 1''"
    by (simp add: msg_min_weights_def str_int_def str_nat.simps)
  have a: "fst (set_root_weights_extrinsic (demanding_chain 2) spec_weight_utils True alice
                  [1, 2, 3] [0, 1 / 2, - 1] 0 True True False False)
             = Inl (ValueError ''The minimum number of weights required to set weights is 2, got 1'')"
    using m l k msg
      error_channels [where basednode = "demanding_chain 2" and s = False and min_allowed = 2
        and max_limit = 1 and netuids = "[1, 2, 3]" and weights = "[0, 1 / 2, - 1]"
        and wu = spec_weight_utils and reply = True and wallet = alice and version_key = 0
        and wait_for_inclusion = True and wait_for_finalization = True and prompt = False,
        THEN conjunct1]
    by simp
  have c: "convert_weights_and_uids_for_emit spec_weight_utils [1, 2, 3] [0, 1 / 2, - 1]
             = Inl (ValueError ''InvalidInput'')"
    by (simp add: spec_weight_utils_def spec_convert_weights_and_uids_for_emit_def)
  have st: "list_ex is_console_status
              (fst (snd (set_root_weights_extrinsic (flag_chain (True, []) True) spec_weight_utils
                           True alice [1, 2, 3] [0, 1 / 2, - 1] 0 True True False False)))"
    by (simp add: set_root_weights_extrinsic_def Let_def flag_chain_def spec_weight_utils_def
          spec_convert_weights_and_uids_for_emit_def spec_normalize_max_weight_def
          argwhere_positive_def index_select_def)
  have b: "fst (set_root_weights_extrinsic (flag_chain (True, []) True) spec_weight_utils True alice
                  [1, 2, 3] [0, 1 / 2, - 1] 0 True True False False) = Inr False"
    using c st
      error_channels [where basednode = "flag_chain (True, []) True" and s = False
        and netuids = "[1, 2, 3]" and weights = "[0, 1 / 2, - 1]"
        and wu = spec_weight_utils and reply = True and wallet = alice and version_key = 0
        and wait_for_inclusion = True and wait_for_finalization = True and prompt = False,
        THEN conjunct2, THEN conjunct1]
    by (auto split: prod.splits)
  have c': "convert_weights_and_uids_for_emit spec_weight_utils [10, 20] [1, 3]
              = Inr ([10, 20], [21845, 65535])"
    by (simp add: spec_weight_utils_def spec_convert_weights_and_uids_for_emit_def py_round_def)
  have d: "fst (do_set_weights (failing_node (OtherException ''connection lost'') ''ws://127.0.0.1:9944'')
                  alice 1 [10, 20] [21845, 65535] 0 True True False)
             = Inl (OtherException ''connection lost'')"
    by (simp add: failing_node_def failing_chain_def flag_chain_def)
  have st': "list_ex is_console_status
               (fst (snd (set_weights_extrinsic (failing_node (OtherException ''connection lost''))
                            spec_weight_utils True ''ws://127.0.0.1:9944'' alice 1 [10, 20] [1, 3] 0
                            True True False False)))"
    using c' by (auto simp: set_weights_extrinsic_def Let_def split: prod.splits sum.splits)
  have e: "fst (set_weights_extrinsic (failing_node (OtherException ''connection lost''))
                  spec_weight_utils True ''ws://127.0.0.1:9944'' alice 1 [10, 20] [1, 3] 0
                  True True False False) = Inr False"
    using c' d st'
      error_channels [where basedai_basednode = "failing_node (OtherException ''connection lost'')"
        and endpoint = "''ws://127.0.0.1:9944''" and s = False and netuid = 1
        and uids = "[10, 20]" and weights = "[1, 3]"
        and wu = spec_weight_utils and reply = True and wallet = alice and version_key = 0
        and wait_for_inclusion = True and wait_for_finalization = True and prompt = False,
        THEN conjunct2, THEN conjunct2]
    by (auto split: prod.splits)
  from a c b d e show ?thesis by simp
qed

text \<open>
  C3, as the code has it. Take a run of \<open>set_root_weights_extrinsic\<close> on netuids and
  weights of the same length in which both parameter queries answer, the count of the
  positive weights reaches the chain's minimum, the normalization returns
  \<open>formatted_weights\<close> and the confirmation is not declined. The filter has served the
  count and nothing else: the normalization is called on the whole \<open>weights\<close> vector, and
  the conversion for emission on the whole \<open>netuids\<close> list with an unfiltered weight
  vector, the raw or the normalized one. These are the first effects of the run, in this
  order. If the conversion raises, the call returns \<^verbatim>\<open>False\<close>, nothing is submitted and the
  chain's state is unchanged. If it returns a pair of uids and values, the next effect is
  the one submission of the run, \<^verbatim>\<open>_do_set_weights\<close> for netuid 0 with exactly that pair,
  and the chain is left in the state that submission produced.
\<close>

theorem root_weights_unfiltered_flow:
  fixes basednode :: "'s basednode"
  assumes "min_allowed_weights basednode 0 s = Inr min_allowed"
      and "max_weight_limit basednode 0 s = Inr max_limit"
      and "length netuids = length weights"
      and "min_allowed \<le> int (length (filter (\<lambda>w. 0 < w) weights))"
      and "normalize_max_weight wu weights max_limit = Inr formatted_weights"
      and "\<not> (prompt \<and> \<not> reply)"
  shows "case set_root_weights_extrinsic basednode wu reply wallet netuids weights version_key
                wait_for_inclusion wait_for_finalization prompt s of
           (r, tr, s') \<Rightarrow>
             \<exists>converted rest.
               (converted = weights \<or> converted = formatted_weights)
               \<and> tr = effects_up_to_conversion basednode netuids weights max_limit
                        formatted_weights prompt converted @ rest
               \<and> (case convert_weights_and_uids_for_emit wu netuids converted of
                     Inl e \<Rightarrow> r = Inr False \<and> s' = s \<and> submissions rest = []
                   | Inr (weight_uids, weight_vals) \<Rightarrow>
                       submissions rest
                         = [Call_do_set_weights 0 weight_uids weight_vals version_key
                              wait_for_finalization wait_for_inclusion]
                       \<and> hd rest
                         = Call_do_set_weights 0 weight_uids weight_vals version_key
                              wait_for_finalization wait_for_inclusion
                       \<and> s' = snd (do_set_weights basednode wallet 0 weight_uids weight_vals
                                    version_key wait_for_finalization wait_for_inclusion s))"
proof -
  obtain r tr s' where run:
    "set_root_weights_extrinsic basednode wu reply wallet netuids weights version_key
       wait_for_inclusion wait_for_finalization prompt s = (r, tr, s')"
    by (cases "set_root_weights_extrinsic basednode wu reply wallet netuids weights version_key
       wait_for_inclusion wait_for_finalization prompt s")
  have "\<exists>rest.
          tr = effects_up_to_conversion basednode netuids weights max_limit
                 formatted_weights prompt weights @ rest
          \<and> (case convert_weights_and_uids_for_emit wu netuids weights of
                Inl e \<Rightarrow> r = Inr False \<and> s' = s \<and> submissions rest = []
              | Inr (weight_uids, weight_vals) \<Rightarrow>
                  submissions rest
                    = [Call_do_set_weights 0 weight_uids weight_vals version_key
                         wait_for_finalization wait_for_inclusion]
                  \<and> hd rest
                    = Call_do_set_weights 0 weight_uids weight_vals version_key
                         wait_for_finalization wait_for_inclusion
                  \<and> s' = snd (do_set_weights basednode wallet 0 weight_uids weight_vals
                               version_key wait_for_finalization wait_for_inclusion s))"
    using assms run
    by (auto simp: set_root_weights_extrinsic_def Let_def index_select_positive
          index_select_netuids effects_up_to_conversion_def submissions_def
          split: sum.splits prod.splits if_splits)
  then show ?thesis
    unfolding run by auto
qed

text \<open>Two positive weights: the one submission carries what the conversion returns.\<close>

theorem root_weights_unfiltered_flow_witness:
  "min_allowed_weights (flag_chain (True, []) True) 0 False = Inr 1
   \<and> max_weight_limit (flag_chain (True, []) True) 0 False = Inr 1
   \<and> (1::int) \<le> int (length (filter (\<lambda>w. 0 < w) [1, 3 :: rat]))
   \<and> normalize_max_weight spec_weight_utils [1, 3] 1 = Inr [1 / 3, 1]
   \<and> submissions (fst (snd (set_root_weights_extrinsic (flag_chain (True, []) True)
                               spec_weight_utils True alice [10, 20] [1, 3] 0 True True False
                               False)))
      = [Call_do_set_weights 0 [10, 20] [21845, 65535] 0 True True]"
proof -
  have m: "min_allowed_weights (flag_chain (True, []) True) 0 False = Inr 1"
    and l: "max_weight_limit (flag_chain (True, []) True) 0 False = Inr 1"
    by (simp_all add: flag_chain_def)
  have n: "length [10, 20 :: int] = length [1, 3 :: rat]"
    and k: "(1::int) \<le> int (length (filter (\<lambda>w. 0 < w) [1, 3 :: rat]))"
    and p: "\<not> (False \<and> \<not> True)"
    by simp_all
  have f: "normalize_max_weight spec_weight_utils [1, 3] 1 = Inr [1 / 3, 1]"
    by (simp add: spec_weight_utils_def spec_normalize_max_weight_def)
  have c1: "convert_weights_and_uids_for_emit spec_weight_utils [10, 20] [1, 3]
              = Inr ([10, 20], [21845, 65535])"
    and c2: "convert_weights_and_uids_for_emit spec_weight_utils [10, 20] [1 / 3, 1]
              = Inr ([10, 20], [21845, 65535])"
    by (simp_all add: spec_weight_utils_def spec_convert_weights_and_uids_for_emit_def
          py_round_def)
  obtain r tr s' where run:
    "set_root_weights_extrinsic (flag_chain (True, []) True) spec_weight_utils True alice
       [10, 20] [1, 3] 0 True True False False = (r, tr, s')"
    by (cases "set_root_weights_extrinsic (flag_chain (True, []) True) spec_weight_utils True alice
       [10, 20] [1, 3] 0 True True False False")
  from root_weights_unfiltered_flow [OF m l n k f p, where wallet = alice and version_key = 0
         and wait_for_inclusion = True and wait_for_finalization = True] run
  obtain converted rest where
    which: "converted = [1, 3] \<or> converted = [1 / 3, 1]"
    and tr: "tr = effects_up_to_conversion (flag_chain (True, []) True) [10, 20] [1, 3] 1
                    [1 / 3, 1] False converted @ rest"
    and after: "case convert_weights_and_uids_for_emit spec_weight_utils [10, 20] converted of
                  Inl e \<Rightarrow> r = Inr False \<and> s' = False \<and> submissions rest = []
                | Inr (weight_uids, weight_vals) \<Rightarrow>
                    submissions rest = [Call_do_set_weights 0 weight_uids weight_vals 0 True True]
                    \<and> hd rest = Call_do_set_weights 0 weight_uids weight_vals 0 True True
                    \<and> s' = snd (do_set_weights (flag_chain (True, []) True) alice 0 weight_uids
                                 weight_vals 0 True True False)"
    by auto
  from which c1 c2
  have "convert_weights_and_uids_for_emit spec_weight_utils [10, 20] converted
          = Inr ([10, 20], [21845, 65535])"
    by auto
  with after have "submissions rest = [Call_do_set_weights 0 [10, 20] [21845, 65535] 0 True True]"
    by simp
  with tr have "submissions tr = [Call_do_set_weights 0 [10, 20] [21845, 65535] 0 True True]"
    by (simp add: submissions_def effects_up_to_conversion_def)
  with run m l k f show ?thesis
    by simp
qed

text \<open>
  C3 as the specification words it fails. Of \<open>[(2, 1/2), (3, -1)]\<close> the filter keeps
  \<open>[(2, 1/2)]\<close>, one weight, which a chain that requires one accepts; normalized and
  converted, that vector is \<open>[(2, 65535)]\<close>, and by the claim it is submitted. The run
  hands the negative weight on to the normalization and to the conversion, the conversion
  refuses it, nothing is submitted and the call returns \<^verbatim>\<open>False\<close>.
\<close>

theorem root_weights_unfiltered_flow_counterexample:
  "index_select [2, 3] (argwhere_positive [1 / 2, - 1]) = Inr [2 :: int]
   \<and> index_select [1 / 2, - 1] (argwhere_positive [1 / 2, - 1]) = Inr [1 / 2 :: rat]
   \<and> normalize_max_weight spec_weight_utils [1 / 2] 1 = Inr [1]
   \<and> convert_weights_and_uids_for_emit spec_weight_utils [2] [1] = Inr ([2], [65535])
   \<and> isl (convert_weights_and_uids_for_emit spec_weight_utils [2, 3] [1 / 2, - 1])
   \<and> Call_normalize_max_weight [1 / 2, - 1] 1
        \<in> set (fst (snd (set_root_weights_extrinsic (flag_chain (True, []) True) spec_weight_utils
                           True alice [2, 3] [1 / 2, - 1] 0 True True False False)))
   \<and> Call_convert_weights_and_uids_for_emit [2, 3] [1 / 2, - 1]
        \<in> set (fst (snd (set_root_weights_extrinsic (flag_chain (True, []) True) spec_weight_utils
                           True alice [2, 3] [1 / 2, - 1] 0 True True False False)))
   \<and> submissions (fst (snd (set_root_weights_extrinsic (flag_chain (True, []) True)
                               spec_weight_utils True alice [2, 3] [1 / 2, - 1] 0 True True False
                               False)))
      = []
   \<and> fst (set_root_weights_extrinsic (flag_chain (True, []) True) spec_weight_utils True alice
            [2, 3] [1 / 2, - 1] 0 True True False False)
      = Inr False"
  by (simp add: set_root_weights_extrinsic_def Let_def flag_chain_def spec_weight_utils_def
        spec_convert_weights_and_uids_for_emit_def spec_normalize_max_weight_def py_round_def
        argwhere_positive_def index_select_def submissions_def)

section \<open>Properties of the deadline guard\<close>

text \<open>
  C1, as the code has it. When the worker completes within \<open>ttl\<close>, the guard returns
  \<^verbatim>\<open>True\<close>, whatever \<open>set_weights_extrinsic\<close> returned or raised in the worker: that
  result stays in the worker process (field \<open>returned\<close>) and takes no part in the
  guard's return value. The worker has exited and has been joined.
\<close>

theorem guard_in_time:
  fixes basedai_basednode :: "string \<Rightarrow> 's basednode"
  assumes "completes_within duration ttl"
  shows "ttl_set_weights_extrinsic basedai_basednode wu reply duration basednode wallet netuid uids
           weights version_key wait_for_inclusion wait_for_finalization prompt ttl s
         = Some (True,
             \<lparr> status = Exited, joined = True,
               returned = Some (fst (set_weights_extrinsic basedai_basednode wu reply
                 (chain_endpoint basednode) wallet netuid uids weights version_key
                 wait_for_inclusion wait_for_finalization prompt s)) \<rparr>)"
  using assms
  by (simp add: ttl_set_weights_extrinsic_def Let_def process_start_def process_join_timeout_def
        process_exit_def process_is_alive_def)

theorem guard_in_time_witness:
  "completes_within (Some 3) 100
   \<and> fst (set_weights_extrinsic rejecting_node spec_weight_utils True
            (chain_endpoint (flag_chain (False, ''rejected'') True)) alice 1 [10, 20] [1, 3] 0
            True False False False) = Inr False
   \<and> ttl_set_weights_extrinsic rejecting_node spec_weight_utils True (Some 3)
        (flag_chain (False, ''rejected'') True) alice 1 [10, 20] [1, 3] 0 True False False 100 False
      = Some (True, \<lparr> status = Exited, joined = True, returned = Some (Inr False) \<rparr>)"
proof -
  have h: "completes_within (Some 3) 100"
    by (simp add: completes_within_def)
  have t: "fst (set_weights_extrinsic rejecting_node spec_weight_utils True
            (chain_endpoint (flag_chain (False, ''rejected'') True)) alice 1 [10, 20] [1, 3] 0
            True False False False) = Inr False"
    by (simp add: set_weights_extrinsic_def Let_def rejecting_node_def flag_chain_def
          spec_weight_utils_def spec_convert_weights_and_uids_for_emit_def py_round_def)
  from guard_in_time [OF h, where basedai_basednode = rejecting_node and wu = spec_weight_utils
         and reply = True and basednode = "flag_chain (False, ''rejected'') True" and wallet = alice
         and netuid = 1 and uids = "[10, 20]" and weights = "[1, 3]" and version_key = 0
         and wait_for_inclusion = True and wait_for_finalization = False and prompt = False
         and s = False] h t
  show ?thesis by simp
qed

text \<open>
  C1 as the specification words it fails. The chain rejects the submission, inclusion was
  awaited, the wrapped call returns \<^verbatim>\<open>False\<close> after three seconds of a hundred allowed,
  and the guard returns \<^verbatim>\<open>True\<close>.
\<close>

theorem guard_in_time_counterexample:
  "completes_within (Some 3) 100
   \<and> fst (set_weights_extrinsic rejecting_node spec_weight_utils True
            (chain_endpoint (flag_chain (False, ''rejected'') True)) alice 1 [10, 20] [1, 3] 0
            True False False False) = Inr False
   \<and> map_option fst
        (ttl_set_weights_extrinsic rejecting_node spec_weight_utils True (Some 3)
           (flag_chain (False, ''rejected'') True) alice 1 [10, 20] [1, 3] 0 True False False 100
           False)
      = Some True"
  by (simp add: ttl_set_weights_extrinsic_def Let_def process_start_def process_join_timeout_def
        process_exit_def process_is_alive_def completes_within_def
        set_weights_extrinsic_def rejecting_node_def flag_chain_def
        spec_weight_utils_def spec_convert_weights_and_uids_for_emit_def py_round_def)

text \<open>
  C2. When \<open>ttl\<close> elapses before the worker completes, the guard kills the worker, joins
  it and returns \<^verbatim>\<open>False\<close>. Every guarded call that completes in time returns \<^verbatim>\<open>True\<close>,
  be it a success or an explicit rejection by the chain, so at the guard's interface the
  value returned on a timeout is returned in no other case: a timed-out call is not
  reported as a success and can be told from a rejection.
\<close>

theorem guard_timeout:
  fixes basedai_basednode :: "string \<Rightarrow> 's basednode"
    and basedai_basednode' :: "string \<Rightarrow> 't basednode"
  shows
  "(\<not> completes_within duration ttl \<longrightarrow>
      ttl_set_weights_extrinsic basedai_basednode wu reply duration basednode wallet netuid uids
        weights version_key wait_for_inclusion wait_for_finalization prompt ttl s
      = Some (False, \<lparr> status = Killed, joined = True, returned = None \<rparr>))
   \<and> (\<not> completes_within duration ttl \<and> completes_within duration' ttl' \<longrightarrow>
        map_option fst
          (ttl_set_weights_extrinsic basedai_basednode wu reply duration basednode wallet netuid
             uids weights version_key wait_for_inclusion wait_for_finalization prompt ttl s)
        = Some False
      \<and> map_option fst
          (ttl_set_weights_extrinsic basedai_basednode' wu' reply' duration' basednode' wallet'
             netuid' uids' weights' version_key' wait_for_inclusion' wait_for_finalization'
             prompt' ttl' s')
        = Some True)"
  by (simp add: ttl_set_weights_extrinsic_def Let_def process_start_def process_join_timeout_def
        process_exit_def process_is_alive_def process_terminate_def process_join_def)

text \<open>
  A worker that hangs is killed and reported with \<^verbatim>\<open>False\<close>; a worker whose submission
  the chain rejects in time is reported with \<^verbatim>\<open>True\<close>.
\<close>

theorem guard_timeout_witness:
  "\<not> completes_within None 100 \<and> completes_within (Some 3) 100
   \<and> ttl_set_weights_extrinsic rejecting_node spec_weight_utils True None
        (flag_chain (True, []) True) alice 1 [10, 20] [1, 3] 0 True False False 100 False
      = Some (False, \<lparr> status = Killed, joined = True, returned = None \<rparr>)
   \<and> fst (set_weights_extrinsic rejecting_node spec_weight_utils True
            (chain_endpoint (flag_chain (False, ''rejected'') True)) alice 1 [10, 20] [1, 3] 0
            True False False False) = Inr False
   \<and> map_option fst
        (ttl_set_weights_extrinsic rejecting_node spec_weight_utils True (Some 3)
           (flag_chain (False, ''rejected'') True) alice 1 [10, 20] [1, 3] 0 True False False 100
           False)
      = Some True"
proof -
  have h: "\<not> completes_within None 100" and h': "completes_within (Some 3) 100"
    by (simp_all add: completes_within_def)
  have t: "fst (set_weights_extrinsic rejecting_node spec_weight_utils True
            (chain_endpoint (flag_chain (False, ''rejected'') True)) alice 1 [10, 20] [1, 3] 0
            True False False False) = Inr False"
    by (simp add: set_weights_extrinsic_def Let_def rejecting_node_def flag_chain_def
          spec_weight_utils_def spec_convert_weights_and_uids_for_emit_def py_round_def)
  from h h' t
    guard_timeout [where duration = None and ttl = 100 and duration' = "Some 3" and ttl' = 100
      and basedai_basednode = rejecting_node and wu = spec_weight_utils and reply = True
      and basednode = "flag_chain (True, []) True" and wallet = alice and netuid = 1
      and uids = "[10, 20]" and weights = "[1, 3]" and version_key = 0
      and wait_for_inclusion = True and wait_for_finalization = False and prompt = False
      and s = False
      and basedai_basednode' = rejecting_node and wu' = spec_weight_utils and reply' = True
      and basednode' = "flag_chain (False, ''rejected'') True" and wallet' = alice and netuid' = 1
      and uids' = "[10, 20]" and weights' = "[1, 3]" and version_key' = 0
      and wait_for_inclusion' = True and wait_for_finalization' = False and prompt' = False
      and s' = False]
  show ?thesis by simp
qed

text \<open>
  C9. The guard returns on every path, and when it returns the worker is not alive and
  has been joined: a worker that completed within \<open>ttl\<close> has exited and was reaped by the
  timed join; otherwise it was terminated and then joined without limit, which returns
  because the worker was killed, also when its target would never have returned.
\<close>

theorem guard_reclaims_worker:
  fixes basedai_basednode :: "string \<Rightarrow> 's basednode"
  shows
  "\<exists>b p. ttl_set_weights_extrinsic basedai_basednode wu reply duration basednode wallet netuid uids
            weights version_key wait_for_inclusion wait_for_finalization prompt ttl s = Some (b, p)
     \<and> joined p \<and> \<not> process_is_alive p
     \<and> (completes_within duration ttl \<longrightarrow> b \<and> status p = Exited)
     \<and> (\<not> completes_within duration ttl \<longrightarrow> \<not> b \<and> status p = Killed)"
  by (auto simp: ttl_set_weights_extrinsic_def Let_def process_start_def process_join_timeout_def
        process_exit_def process_is_alive_def process_terminate_def process_join_def)

theorem guard_reclaims_worker_witness:
  "\<not> completes_within (Some 200) 100
   \<and> map_option fst
        (ttl_set_weights_extrinsic rejecting_node spec_weight_utils True (Some 200)
           (flag_chain (True, []) True) alice 1 [10, 20] [1, 3] 0 True False False 100 False)
      = Some False
   \<and> map_option (\<lambda>r. (status (snd r), joined (snd r)))
        (ttl_set_weights_extrinsic rejecting_node spec_weight_utils True (Some 200)
           (flag_chain (True, []) True) alice 1 [10, 20] [1, 3] 0 True False False 100 False)
      = Some (Killed, True)"
proof -
  have h: "\<not> completes_within (Some 200) 100"
    by (simp add: completes_within_def)
  from guard_reclaims_worker [where duration = "Some 200" and ttl = 100
      and basedai_basednode = rejecting_node and wu = spec_weight_utils and reply = True
      and basednode = "flag_chain (True, []) True" and wallet = alice and netuid = 1
      and uids = "[10, 20]" and weights = "[1, 3]" and version_key = 0
      and wait_for_inclusion = True and wait_for_finalization = False and prompt = False
      and s = False]
  obtain b p where
    "ttl_set_weights_extrinsic rejecting_node spec_weight_utils True (Some 200)
       (flag_chain (True, []) True) alice 1 [10, 20] [1, 3] 0 True False False 100 False
     = Some (b, p)"
    and "joined p"
    and "\<not> completes_within (Some 200) 100 \<longrightarrow> \<not> b \<and> status p = Killed"
    by blast
  with h show ?thesis by simp
qed

end
